theory Spec2Isabelle
  imports Main
begin

section \<open>The preprocessor fragment used by portable/system.h\<close>

text \<open>
  The program is a C header: its behaviour is what the preprocessor does with it, given
  the macros that are defined when it is included and the files it includes. The header
  is embedded as a list of directives, and inclusion as an interpreter over that list
  which threads the macro table and records what the header emits.
\<close>

type_synonym name = string
type_synonym token = string

text \<open>
  An object-like macro \<open>#define N toks\<close>, or a function-like macro
  \<open>#define N(params) toks\<close>.
\<close>

datatype macro = Object "token list" | Function "name list" "token list"

type_synonym macro_table = "name \<rightharpoonup> macro"

definition defined :: "macro_table \<Rightarrow> name \<Rightarrow> bool" where
  "defined env n = (env n \<noteq> None)"

text \<open>
  The text of the files the header includes (config.h, the standard headers, the two
  files under portable/) is not part of the sources at hand, so it is a parameter: for
  each file, the macros it defines when it is included with a given macro table, in
  order, and the names of the functions and types it declares. The files are taken to
  define macros only, not to remove any.
\<close>

record platform =
  macros_of :: "string \<Rightarrow> macro_table \<Rightarrow> (name \<times> macro) list"
  names_of :: "string \<Rightarrow> name list"

fun define_all :: "(name \<times> macro) list \<Rightarrow> macro_table \<Rightarrow> macro_table" where
  "define_all [] env = env"
| "define_all ((n, m) # ds) env = define_all ds (env(n \<mapsto> m))"

text \<open>
  The three tests of the header: \<open>#ifdef N\<close>, \<open>#ifndef N\<close> and \<open>#if N\<close> with a single
  identifier as controlling expression.
\<close>

datatype test = Ifdef name | Ifndef name | If_value name

text \<open>
  A directive of the header. \<open>Text toks\<close> is a line of C text, which the preprocessor
  passes on after macro replacement. \<open>Conditional c a b\<close> is \<open>#if.. a #else b #endif\<close>; a
  conditional without \<open>#else\<close> has \<open>b = []\<close>.
\<close>

datatype directive =
    Include string
  | Define name macro
  | Text "token list"
  | Conditional test "directive list" "directive list"

text \<open>
  What processing the header emits, in order. \<open>Line None\<close> is a text line whose
  replacement the model does not follow.
\<close>

datatype event =
    Included string
  | Defined name macro
  | Line "token list option"

datatype error = Bad_if name | Not_modelled name

record state =
  macros :: macro_table
  log :: "event list"
  conflicts :: "name list"

subsection \<open>Evaluation of the tests\<close>

text \<open>
  \<open>#if N\<close> (ISO C 6.10.1): an identifier that is not a macro is replaced by 0, and so
  is the name of a function-like macro that is not followed by a parenthesis. An
  object-like macro is replaced by its replacement list, which must then be an integer
  constant expression. The model evaluates a replacement list of one token: a decimal
  or octal constant that fits \<open>uintmax_t\<close>, or an identifier that is not replaced
  further, which counts as 0. Every other replacement list yields \<open>None\<close>.
\<close>

definition decimal_constant :: "token \<Rightarrow> bool" where
  "decimal_constant t =
     (t \<noteq> [] \<and> length t \<le> 19 \<and> hd t \<in> set ''123456789'' \<and>
      list_all (\<lambda>c. c \<in> set ''0123456789'') t)"

definition octal_constant :: "token \<Rightarrow> bool" where
  "octal_constant t =
     (t \<noteq> [] \<and> length t \<le> 22 \<and> hd t = CHR ''0'' \<and>
      list_all (\<lambda>c. c \<in> set ''01234567'') t)"

definition plain_identifier :: "token \<Rightarrow> bool" where
  "plain_identifier t =
     (t \<noteq> [] \<and>
      hd t \<in> set ''_abcdefghijklmnopqrstuvwxyzABCDEFGHIJKLMNOPQRSTUVWXYZ'' \<and>
      list_all (\<lambda>c. c \<in> set ''_abcdefghijklmnopqrstuvwxyzABCDEFGHIJKLMNOPQRSTUVWXYZ0123456789'') t \<and>
      t \<notin> set [''defined'', ''true'', ''false'', ''__has_include'', ''__has_include_next'',
                 ''__has_attribute'', ''__has_cpp_attribute'', ''__has_builtin'',
                 ''__has_c_attribute'', ''__has_embed'', ''__has_feature'',
                 ''__has_extension'', ''__LINE__'', ''__STDC__'', ''__STDC_VERSION__'',
                 ''__STDC_HOSTED__'', ''__COUNTER__'', ''__INCLUDE_LEVEL__''])"

definition object_like :: "macro_table \<Rightarrow> name \<Rightarrow> bool" where
  "object_like env n = (case env n of Some (Object b) \<Rightarrow> True | _ \<Rightarrow> False)"

definition token_value :: "macro_table \<Rightarrow> name \<Rightarrow> token \<Rightarrow> bool option" where
  "token_value env n t =
     (if decimal_constant t then Some True
      else if octal_constant t then Some (\<not> list_all (\<lambda>c. c = CHR ''0'') t)
      else if plain_identifier t \<and> (t = n \<or> \<not> object_like env t) then Some False
      else None)"

fun if_value :: "macro_table \<Rightarrow> name \<Rightarrow> bool option" where
  "if_value env n =
     (case env n of
        None \<Rightarrow> Some False
      | Some (Function ps b) \<Rightarrow> Some False
      | Some (Object [t]) \<Rightarrow> token_value env n t
      | Some (Object _) \<Rightarrow> None)"

fun holds :: "macro_table \<Rightarrow> test \<Rightarrow> bool option" where
  "holds env (Ifdef n) = Some (defined env n)"
| "holds env (Ifndef n) = Some (\<not> defined env n)"
| "holds env (If_value n) = if_value env n"

fun tested :: "test \<Rightarrow> name" where
  "tested (Ifdef n) = n"
| "tested (Ifndef n) = n"
| "tested (If_value n) = n"

text \<open>
  A test that has no value stops the processing. With an empty replacement list \<open>#if\<close>
  is left without an expression, which every preprocessor rejects: \<open>Bad_if\<close>. In the
  other cases the model does not evaluate the expression: \<open>Not_modelled\<close>.
\<close>

definition no_value :: "macro_table \<Rightarrow> name \<Rightarrow> error" where
  "no_value env n = (if env n = Some (Object []) then Bad_if n else Not_modelled n)"

subsection \<open>Macro replacement in a text line\<close>

text \<open>
  Each token that names an object-like macro is replaced by the replacement list of the
  macro, which is rescanned with that name no longer replaced (ISO C 6.10.3.4). A
  function-like macro is replaced only where a parenthesis follows its name; the lines
  of this header contain none, so the model gives up, with \<open>None\<close>, on a replacement
  list that brings one in, and on a nesting deeper than its first argument.
\<close>

fun expand :: "nat \<Rightarrow> macro_table \<Rightarrow> name list \<Rightarrow> token \<Rightarrow> token list option" where
  "expand 0 env seen t = None"
| "expand (Suc k) env seen t =
     (if t \<in> set seen then Some [t]
      else case env t of
        Some (Object b) \<Rightarrow>
          if ''('' \<in> set b then None
          else map_option concat (those (map (expand k env (t # seen)) b))
      | _ \<Rightarrow> Some [t])"

definition expand_line :: "macro_table \<Rightarrow> token list \<Rightarrow> token list option" where
  "expand_line env toks = map_option concat (those (map (expand 64 env []) toks))"

subsection \<open>Processing directives\<close>

text \<open>
  \<open>#include\<close> enters the macros of the included file in the table. \<open>#define\<close> enters
  the macro in the table; defining a name that is already defined with a different
  parameter list or replacement list is a redefinition conflict (ISO C 6.10.3), which
  compilers report before they go on with the new definition, and so does the model,
  which collects the names in \<open>conflicts\<close>.
\<close>

definition clashes :: "macro_table \<Rightarrow> name \<Rightarrow> macro \<Rightarrow> bool" where
  "clashes env n m = (case env n of None \<Rightarrow> False | Some m' \<Rightarrow> m' \<noteq> m)"

fun exec :: "platform \<Rightarrow> directive \<Rightarrow> state \<Rightarrow> error + state"
  and execs :: "platform \<Rightarrow> directive list \<Rightarrow> state \<Rightarrow> error + state" where
  "exec P (Include f) s =
     Inr (s\<lparr>macros := define_all (macros_of P f (macros s)) (macros s),
            log := log s @ [Included f]\<rparr>)"
| "exec P (Define n m) s =
     Inr (s\<lparr>macros := (macros s)(n \<mapsto> m),
            log := log s @ [Defined n m],
            conflicts := conflicts s @ (if clashes (macros s) n m then [n] else [])\<rparr>)"
| "exec P (Text toks) s = Inr (s\<lparr>log := log s @ [Line (expand_line (macros s) toks)]\<rparr>)"
| "exec P (Conditional c a b) s =
     (case holds (macros s) c of
        None \<Rightarrow> Inl (no_value (macros s) (tested c))
      | Some v \<Rightarrow> if v then execs P a s else execs P b s)"
| "execs P [] s = Inr s"
| "execs P (d # ds) s = (case exec P d s of Inl e \<Rightarrow> Inl e | Inr s' \<Rightarrow> execs P ds s')"

section \<open>The header\<close>

text \<open>Lines 40 to 71: the configuration, then the standard headers.\<close>

definition standard_headers :: "directive list" where
  "standard_headers =
     [Include ''config.h'',
      Include ''portable/macros.h'',
      Conditional (If_value ''HAVE_INTTYPES_H'') [Include ''inttypes.h''] [],
      Include ''stdarg.h'',
      Include ''stddef.h'',
      Conditional (If_value ''HAVE_STDINT_H'') [Include ''stdint.h''] [],
      Include ''stdio.h'',
      Include ''stdlib.h'',
      Include ''string.h'',
      Conditional (If_value ''HAVE_STRINGS_H'') [Include ''strings.h''] [],
      Include ''sys/types.h'',
      Conditional (If_value ''HAVE_UNISTD_H'') [Include ''unistd.h''] [],
      Conditional (If_value ''HAVE_SYS_BITYPES_H'') [Include ''sys/bitypes.h''] [],
      Include ''portable/stdbool.h'']"

text \<open>Lines 74 to 103: the four substitutions.\<close>

definition snprintf_alias :: macro where
  "snprintf_alias = Object [''_snprintf'']"

definition va_copy_alias :: macro where
  "va_copy_alias =
     Function [''d'', ''s'']
       [''__va_copy'', ''('', ''('', ''d'', '')'', '','', ''('', ''s'', '')'', '')'']"

definition va_copy_memcpy :: macro where
  "va_copy_memcpy =
     Function [''d'', ''s'']
       [''memcpy'', ''('', ''&'', ''('', ''d'', '')'', '','', ''&'', ''('', ''s'', '')'', '','',
        ''sizeof'', ''('', ''va_list'', '')'', '')'']"

definition ssize_t_line :: "token list" where
  "ssize_t_line = [''typedef'', ''ptrdiff_t'', ''ssize_t'', '';'']"

definition substitutions :: "directive list" where
  "substitutions =
     [Conditional (Ifdef ''_WIN32'') [Define ''snprintf'' snprintf_alias] [],
      Conditional (Ifndef ''HAVE_SSIZE_T'') [Text ssize_t_line] [],
      Conditional (Ifndef ''STDIN_FILENO'')
        [Define ''STDIN_FILENO'' (Object [''0'']),
         Define ''STDOUT_FILENO'' (Object [''1'']),
         Define ''STDERR_FILENO'' (Object [''2''])] [],
      Conditional (Ifndef ''va_copy'')
        [Conditional (Ifdef ''__va_copy'')
           [Define ''va_copy'' va_copy_alias]
           [Define ''va_copy'' va_copy_memcpy]] []]"

text \<open>The whole file, lines 36 to 105: the body inside its include guard.\<close>

definition guard :: name where
  "guard = ''PORTABLE_SYSTEM_H''"

definition body :: "directive list" where
  "body = Define guard (Object [''1'']) # standard_headers @ substitutions"

definition system_h :: "directive list" where
  "system_h = [Conditional (Ifndef guard) body []]"

text \<open>
  Including the header, on platform \<open>P\<close>, in a translation unit whose macro table is
  \<open>env\<close>.
\<close>

definition start :: "macro_table \<Rightarrow> state" where
  "start env = \<lparr>macros = env, log = [], conflicts = []\<rparr>"

definition include_system_h :: "platform \<Rightarrow> macro_table \<Rightarrow> error + state" where
  "include_system_h P env = execs P system_h (start env)"

text \<open>
  The macro table that a test of the body meets in a first inclusion: the table once
  the directives before the conditional with that test have been processed.
\<close>

fun tests_with :: "test \<Rightarrow> directive \<Rightarrow> bool" where
  "tests_with c (Conditional c' a b) = (c' = c)"
| "tests_with c d = False"

definition visible :: "platform \<Rightarrow> macro_table \<Rightarrow> test \<Rightarrow> macro_table option" where
  "visible P env c =
     (case execs P (takeWhile (\<lambda>d. \<not> tests_with c d) body) (start env) of
        Inl e \<Rightarrow> None
      | Inr s \<Rightarrow> Some (macros s))"

section \<open>What is observed of an inclusion\<close>

text \<open>
  The macros the header defined for a name, the types it declared a name as, and the
  files it included, each in the order of the log.
\<close>

fun definitions_of :: "name \<Rightarrow> event list \<Rightarrow> macro list" where
  "definitions_of n [] = []"
| "definitions_of n (Defined k m # es) =
     (if k = n then m # definitions_of n es else definitions_of n es)"
| "definitions_of n (_ # es) = definitions_of n es"

fun declarations_of :: "name \<Rightarrow> event list \<Rightarrow> string list" where
  "declarations_of n [] = []"
| "declarations_of n (Line (Some [kw, t, k, semi]) # es) =
     (if kw = ''typedef'' \<and> semi = '';'' \<and> k = n
      then t # declarations_of n es else declarations_of n es)"
| "declarations_of n (_ # es) = declarations_of n es"

fun lines :: "event list \<Rightarrow> token list option list" where
  "lines [] = []"
| "lines (Line l # es) = l # lines es"
| "lines (_ # es) = lines es"

fun inclusions :: "event list \<Rightarrow> string list" where
  "inclusions [] = []"
| "inclusions (Included f # es) = f # inclusions es"
| "inclusions (_ # es) = inclusions es"

section \<open>Configurations\<close>

text \<open>
  A flag is set when \<open>#if\<close> finds it true, and well-formed when \<open>#if\<close> finds it true
  or false. A configuration is a platform together with the macro table of a
  translation unit that has not yet included the header, such that each of the five
  flags the header tests with \<open>#if\<close> is well-formed where it is tested. Config.h, which
  the header includes first, is where a configuration step defines the flag of a
  detected feature as \<open>1\<close> and leaves the flag of an absent one undefined.
\<close>

definition flag_set :: "macro_table \<Rightarrow> name \<Rightarrow> bool" where
  "flag_set env f = (if_value env f = Some True)"

definition flag_ok :: "macro_table \<Rightarrow> name \<Rightarrow> bool" where
  "flag_ok env f = (if_value env f \<noteq> None)"

definition flag_ok_at :: "platform \<Rightarrow> macro_table \<Rightarrow> name \<Rightarrow> bool" where
  "flag_ok_at P env f =
     (case visible P env (If_value f) of None \<Rightarrow> False | Some t \<Rightarrow> flag_ok t f)"

definition boolean_flags :: "platform \<Rightarrow> macro_table \<Rightarrow> bool" where
  "boolean_flags P env =
     (flag_ok_at P env ''HAVE_INTTYPES_H'' \<and> flag_ok_at P env ''HAVE_STDINT_H'' \<and>
      flag_ok_at P env ''HAVE_STRINGS_H'' \<and> flag_ok_at P env ''HAVE_UNISTD_H'' \<and>
      flag_ok_at P env ''HAVE_SYS_BITYPES_H'')"

definition configuration :: "platform \<Rightarrow> macro_table \<Rightarrow> bool" where
  "configuration P env = (\<not> defined env guard \<and> boolean_flags P env)"

text \<open>
  Whether a name is defined where a test of the body is reached, and whether it is
  defined once the header has been included. \<open>None\<close> when the inclusion fails.
\<close>

definition defined_at :: "platform \<Rightarrow> macro_table \<Rightarrow> test \<Rightarrow> name \<Rightarrow> bool" where
  "defined_at P env c n = (case visible P env c of None \<Rightarrow> False | Some t \<Rightarrow> defined t n)"

definition defined_after :: "platform \<Rightarrow> macro_table \<Rightarrow> name \<Rightarrow> bool option" where
  "defined_after P env n =
     (case include_system_h P env of Inl e \<Rightarrow> None | Inr r \<Rightarrow> Some (defined (macros r) n))"

definition header_defines :: "platform \<Rightarrow> macro_table \<Rightarrow> name \<Rightarrow> macro list option" where
  "header_defines P env n =
     (case include_system_h P env of
        Inl e \<Rightarrow> None
      | Inr r \<Rightarrow> Some (definitions_of n (log r)))"





definition flag_set_at :: "platform \<Rightarrow> macro_table \<Rightarrow> name \<Rightarrow> bool" where
  "flag_set_at P env f =
     (case visible P env (If_value f) of None \<Rightarrow> False | Some t \<Rightarrow> flag_set t f)"

definition replaced_at :: "platform \<Rightarrow> macro_table \<Rightarrow> test \<Rightarrow> token \<Rightarrow> bool" where
  "replaced_at P env c t =
     (case visible P env c of None \<Rightarrow> False | Some T \<Rightarrow> object_like T t)"

definition header_declares :: "platform \<Rightarrow> macro_table \<Rightarrow> name \<Rightarrow> string list option" where
  "header_declares P env n =
     (case include_system_h P env of
        Inl e \<Rightarrow> None
      | Inr r \<Rightarrow> Some (declarations_of n (log r)))"

definition header_lines :: "platform \<Rightarrow> macro_table \<Rightarrow> token list option list option" where
  "header_lines P env =
     (case include_system_h P env of Inl e \<Rightarrow> None | Inr r \<Rightarrow> Some (lines (log r)))"

definition entry_at :: "platform \<Rightarrow> macro_table \<Rightarrow> test \<Rightarrow> name \<Rightarrow> macro option" where
  "entry_at P env c n = (case visible P env c of None \<Rightarrow> None | Some t \<Rightarrow> t n)"

definition line_at :: "platform \<Rightarrow> macro_table \<Rightarrow> token list option" where
  "line_at P env =
     (case visible P env (Ifndef ''HAVE_SSIZE_T'') of
        None \<Rightarrow> None
      | Some t \<Rightarrow> expand_line t ssize_t_line)"

subsection \<open>Some platforms\<close>

text \<open>
  A freestanding platform, whose files define and declare nothing. A POSIX platform
  with a C99 library: config.h reports what was detected, \<open>unistd.h\<close> defines the stream
  descriptors and \<open>stdarg.h\<close> defines \<open>va_copy\<close>. An old GCC, whose \<open>stdarg.h\<close> has
  \<open>__va_copy\<close> only and whose integer types come from \<open>sys/bitypes.h\<close>. An old
  Microsoft compiler, which defines \<open>_WIN32\<close> itself and has \<open>_snprintf\<close> but neither
  \<open>unistd.h\<close> nor \<open>va_copy\<close>.
\<close>

definition integer_types :: "name list" where
  "integer_types =
     [''int8_t'', ''int16_t'', ''int32_t'', ''int64_t'',
      ''uint8_t'', ''uint16_t'', ''uint32_t'', ''uint64_t'']"

definition descriptor_macros :: "(name \<times> macro) list" where
  "descriptor_macros =
     [(''STDIN_FILENO'', Object [''0'']),
      (''STDOUT_FILENO'', Object [''1'']),
      (''STDERR_FILENO'', Object [''2''])]"

definition builtin_va_copy :: macro where
  "builtin_va_copy =
     Function [''d'', ''s''] [''__builtin_va_copy'', ''('', ''d'', '','', ''s'', '')'']"

definition freestanding :: platform where
  "freestanding = \<lparr>macros_of = (\<lambda>f t. []), names_of = (\<lambda>f. [])\<rparr>"

definition posix :: platform where
  "posix =
     \<lparr>macros_of = (\<lambda>f t.
        if f = ''config.h'' then
          [(''HAVE_INTTYPES_H'', Object [''1'']), (''HAVE_STDINT_H'', Object [''1'']),
           (''HAVE_STRINGS_H'', Object [''1'']), (''HAVE_UNISTD_H'', Object [''1'']),
           (''HAVE_SSIZE_T'', Object [''1''])]
        else if f = ''unistd.h'' then descriptor_macros
        else if f = ''stdarg.h'' then [(''va_copy'', builtin_va_copy)]
        else []),
      names_of = (\<lambda>f.
        if f = ''stdio.h'' then [''snprintf'']
        else if f = ''stdint.h'' then integer_types
        else if f = ''sys/types.h'' then [''ssize_t'']
        else [])\<rparr>"

definition old_gcc :: platform where
  "old_gcc =
     \<lparr>macros_of = (\<lambda>f t.
        if f = ''config.h'' then
          [(''HAVE_UNISTD_H'', Object [''1'']), (''HAVE_SYS_BITYPES_H'', Object [''1'']),
           (''HAVE_SSIZE_T'', Object [''1''])]
        else if f = ''unistd.h'' then descriptor_macros
        else if f = ''stdarg.h'' then [(''__va_copy'', builtin_va_copy)]
        else []),
      names_of = (\<lambda>f.
        if f = ''stdio.h'' then [''snprintf'']
        else if f = ''sys/bitypes.h'' then integer_types
        else if f = ''sys/types.h'' then [''ssize_t'']
        else [])\<rparr>"

definition msvc :: platform where
  "msvc =
     \<lparr>macros_of = (\<lambda>f t.
        if f = ''config.h'' then [(''HAVE_STDINT_H'', Object [''1''])] else []),
      names_of = (\<lambda>f.
        if f = ''stdio.h'' then [''_snprintf'']
        else if f = ''stdint.h'' then integer_types
        else [])\<rparr>"

definition win32 :: macro_table where
  "win32 = [''_WIN32'' \<mapsto> Object [''1'']]"

definition stdin_only :: macro_table where
  "stdin_only = [''STDIN_FILENO'' \<mapsto> Object [''0'']]"

text \<open>
  A translation unit in which \<open>ssize_t\<close> is a macro, as a configuration step defines it
  where the type is missing.
\<close>

definition ssize_t_as_int :: macro_table where
  "ssize_t_as_int = [''ssize_t'' \<mapsto> Object [''int'']]"

text \<open>
  The headers of the POSIX platform where the flags are given on the command line and
  config.h is empty, and translation units with one flag: set, and defined with an
  empty replacement list.
\<close>

definition posix_headers :: platform where
  "posix_headers =
     \<lparr>macros_of = (\<lambda>f t.
        if f = ''unistd.h'' then descriptor_macros
        else if f = ''stdarg.h'' then [(''va_copy'', builtin_va_copy)]
        else []),
      names_of = names_of posix\<rparr>"

definition with_unistd :: macro_table where
  "with_unistd = [''HAVE_UNISTD_H'' \<mapsto> Object [''1'']]"




section \<open>The output of the header in closed form\<close>

text \<open>
  The macro tables that the tests of a first inclusion meet, and what the inclusion
  logs and defines, written as functions of the platform and of the macro table before
  the inclusion. The lemmas below show that the interpreter computes just this.
\<close>

definition optional :: "bool \<Rightarrow> 'a \<Rightarrow> 'a list" where
  "optional b x = (if b then [x] else [])"

definition inc :: "platform \<Rightarrow> string \<Rightarrow> macro_table \<Rightarrow> macro_table" where
  "inc P f t = define_all (macros_of P f t) t"

definition inc_if :: "platform \<Rightarrow> name \<Rightarrow> string \<Rightarrow> macro_table \<Rightarrow> macro_table" where
  "inc_if P flag f t = (if flag_set t flag then inc P f t else t)"

definition table_inttypes :: "platform \<Rightarrow> macro_table \<Rightarrow> macro_table" where
  "table_inttypes P env =
     inc P ''portable/macros.h'' (inc P ''config.h'' (env(guard \<mapsto> Object [''1''])))"

definition table_stdint :: "platform \<Rightarrow> macro_table \<Rightarrow> macro_table" where
  "table_stdint P env =
     inc P ''stddef.h'' (inc P ''stdarg.h''
       (inc_if P ''HAVE_INTTYPES_H'' ''inttypes.h'' (table_inttypes P env)))"

definition table_strings :: "platform \<Rightarrow> macro_table \<Rightarrow> macro_table" where
  "table_strings P env =
     inc P ''string.h'' (inc P ''stdlib.h'' (inc P ''stdio.h''
       (inc_if P ''HAVE_STDINT_H'' ''stdint.h'' (table_stdint P env))))"

definition table_unistd :: "platform \<Rightarrow> macro_table \<Rightarrow> macro_table" where
  "table_unistd P env =
     inc P ''sys/types.h'' (inc_if P ''HAVE_STRINGS_H'' ''strings.h'' (table_strings P env))"

definition table_bitypes :: "platform \<Rightarrow> macro_table \<Rightarrow> macro_table" where
  "table_bitypes P env = inc_if P ''HAVE_UNISTD_H'' ''unistd.h'' (table_unistd P env)"

definition table_substitutions :: "platform \<Rightarrow> macro_table \<Rightarrow> macro_table" where
  "table_substitutions P env =
     inc P ''portable/stdbool.h''
       (inc_if P ''HAVE_SYS_BITYPES_H'' ''sys/bitypes.h'' (table_bitypes P env))"

definition headers_log :: "platform \<Rightarrow> macro_table \<Rightarrow> event list" where
  "headers_log P env =
     [Included ''config.h'', Included ''portable/macros.h''] @
     optional (flag_set (table_inttypes P env) ''HAVE_INTTYPES_H'') (Included ''inttypes.h'') @
     [Included ''stdarg.h'', Included ''stddef.h''] @
     optional (flag_set (table_stdint P env) ''HAVE_STDINT_H'') (Included ''stdint.h'') @
     [Included ''stdio.h'', Included ''stdlib.h'', Included ''string.h''] @
     optional (flag_set (table_strings P env) ''HAVE_STRINGS_H'') (Included ''strings.h'') @
     [Included ''sys/types.h''] @
     optional (flag_set (table_unistd P env) ''HAVE_UNISTD_H'') (Included ''unistd.h'') @
     optional (flag_set (table_bitypes P env) ''HAVE_SYS_BITYPES_H'')
       (Included ''sys/bitypes.h'') @
     [Included ''portable/stdbool.h'']"

definition tables_ok :: "platform \<Rightarrow> macro_table \<Rightarrow> bool" where
  "tables_ok P env =
     (flag_ok (table_inttypes P env) ''HAVE_INTTYPES_H'' \<and>
      flag_ok (table_stdint P env) ''HAVE_STDINT_H'' \<and>
      flag_ok (table_strings P env) ''HAVE_STRINGS_H'' \<and>
      flag_ok (table_unistd P env) ''HAVE_UNISTD_H'' \<and>
      flag_ok (table_bitypes P env) ''HAVE_SYS_BITYPES_H'')"

definition descriptor_definitions :: "event list" where
  "descriptor_definitions =
     [Defined ''STDIN_FILENO'' (Object [''0'']),
      Defined ''STDOUT_FILENO'' (Object [''1'']),
      Defined ''STDERR_FILENO'' (Object [''2''])]"

definition va_copy_choice :: "macro_table \<Rightarrow> macro" where
  "va_copy_choice env = (if defined env ''__va_copy'' then va_copy_alias else va_copy_memcpy)"

definition table_ssize_t :: "macro_table \<Rightarrow> macro_table" where
  "table_ssize_t t = (if defined t ''_WIN32'' then t(''snprintf'' \<mapsto> snprintf_alias) else t)"

definition table_va_copy :: "macro_table \<Rightarrow> macro_table" where
  "table_va_copy t =
     (if defined t ''STDIN_FILENO'' then table_ssize_t t
      else (table_ssize_t t)(''STDIN_FILENO'' \<mapsto> Object [''0''],
                             ''STDOUT_FILENO'' \<mapsto> Object [''1''],
                             ''STDERR_FILENO'' \<mapsto> Object [''2'']))"

definition table_end :: "macro_table \<Rightarrow> macro_table" where
  "table_end t =
     (if defined t ''va_copy'' then table_va_copy t
      else (table_va_copy t)(''va_copy'' \<mapsto> va_copy_choice t))"

definition substitutions_log :: "macro_table \<Rightarrow> event list" where
  "substitutions_log t =
     optional (defined t ''_WIN32'') (Defined ''snprintf'' snprintf_alias) @
     optional (\<not> defined t ''HAVE_SSIZE_T'') (Line (expand_line (table_ssize_t t) ssize_t_line)) @
     (if defined t ''STDIN_FILENO'' then [] else descriptor_definitions) @
     optional (\<not> defined t ''va_copy'') (Defined ''va_copy'' (va_copy_choice t))"

definition substitutions_conflicts :: "macro_table \<Rightarrow> name list" where
  "substitutions_conflicts t =
     optional (defined t ''_WIN32'' \<and> clashes t ''snprintf'' snprintf_alias) ''snprintf'' @
     (if defined t ''STDIN_FILENO'' then []
      else optional (clashes t ''STDOUT_FILENO'' (Object [''1''])) ''STDOUT_FILENO'' @
           optional (clashes t ''STDERR_FILENO'' (Object [''2''])) ''STDERR_FILENO'')"

definition header_result :: "platform \<Rightarrow> macro_table \<Rightarrow> state" where
  "header_result P env =
     \<lparr>macros = table_end (table_substitutions P env),
      log = Defined guard (Object [''1'']) # headers_log P env @
            substitutions_log (table_substitutions P env),
      conflicts = substitutions_conflicts (table_substitutions P env)\<rparr>"

definition after_headers :: "platform \<Rightarrow> macro_table \<Rightarrow> state" where
  "after_headers P env =
     \<lparr>macros = table_substitutions P env,
      log = Defined guard (Object [''1'']) # headers_log P env,
      conflicts = []\<rparr>"


section \<open>The interpreter on the header\<close>

lemma execs_append:
  "execs P (a @ b) s = (case execs P a s of Inl e \<Rightarrow> Inl e | Inr t \<Rightarrow> execs P b t)"
  by (induction a arbitrary: s) (auto split: sum.splits)

lemma execs_single: "execs P [d] s = exec P d s"
  by (cases "exec P d s") simp_all

lemma exec_include:
  "exec P (Include f) s = Inr (s\<lparr>macros := inc P f (macros s), log := log s @ [Included f]\<rparr>)"
  by (simp add: inc_def)

lemma exec_if_include:
  assumes "flag_ok (macros s) f"
  shows "exec P (Conditional (If_value f) [Include h] []) s =
         Inr (s\<lparr>macros := inc_if P f h (macros s),
                log := log s @ optional (flag_set (macros s) f) (Included h)\<rparr>)"
proof -
  from assms have "if_value (macros s) f = Some (flag_set (macros s) f)"
    by (auto simp: flag_ok_def flag_set_def)
  then show ?thesis
    by (simp add: optional_def inc_if_def inc_def)
qed

lemma execs_standard_headers:
  assumes "tables_ok P env" and "macros s = env(guard \<mapsto> Object [''1''])"
  shows "execs P standard_headers s =
         Inr (s\<lparr>macros := table_substitutions P env, log := log s @ headers_log P env\<rparr>)"
proof -
  note t = table_inttypes_def table_stdint_def table_strings_def table_unistd_def
    table_bitypes_def table_substitutions_def
  from assms(1) have ok:
    "flag_ok (table_inttypes P env) ''HAVE_INTTYPES_H''"
    "flag_ok (table_stdint P env) ''HAVE_STDINT_H''"
    "flag_ok (table_strings P env) ''HAVE_STRINGS_H''"
    "flag_ok (table_unistd P env) ''HAVE_UNISTD_H''"
    "flag_ok (table_bitypes P env) ''HAVE_SYS_BITYPES_H''"
    by (simp_all add: tables_ok_def)
  let ?s1 = "s\<lparr>macros := table_inttypes P env,
      log := log s @ [Included ''config.h'', Included ''portable/macros.h'']\<rparr>"
  have 1: "execs P [Include ''config.h'', Include ''portable/macros.h''] s = Inr ?s1"
    using assms(2) by (simp add: exec_include t del: exec.simps)
  let ?s2 = "?s1\<lparr>macros := table_stdint P env,
      log := log ?s1 @ optional (flag_set (table_inttypes P env) ''HAVE_INTTYPES_H'')
        (Included ''inttypes.h'') @ [Included ''stdarg.h'', Included ''stddef.h'']\<rparr>"
  have 2: "execs P [Conditional (If_value ''HAVE_INTTYPES_H'') [Include ''inttypes.h''] [],
      Include ''stdarg.h'', Include ''stddef.h''] ?s1 = Inr ?s2"
    using ok(1) by (simp add: exec_include exec_if_include t del: exec.simps)
  let ?s3 = "?s2\<lparr>macros := table_strings P env,
      log := log ?s2 @ optional (flag_set (table_stdint P env) ''HAVE_STDINT_H'')
        (Included ''stdint.h'') @
        [Included ''stdio.h'', Included ''stdlib.h'', Included ''string.h'']\<rparr>"
  have 3: "execs P [Conditional (If_value ''HAVE_STDINT_H'') [Include ''stdint.h''] [],
      Include ''stdio.h'', Include ''stdlib.h'', Include ''string.h''] ?s2 = Inr ?s3"
    using ok(2) by (simp add: exec_include exec_if_include t del: exec.simps)
  let ?s4 = "?s3\<lparr>macros := table_unistd P env,
      log := log ?s3 @ optional (flag_set (table_strings P env) ''HAVE_STRINGS_H'')
        (Included ''strings.h'') @ [Included ''sys/types.h'']\<rparr>"
  have 4: "execs P [Conditional (If_value ''HAVE_STRINGS_H'') [Include ''strings.h''] [],
      Include ''sys/types.h''] ?s3 = Inr ?s4"
    using ok(3) by (simp add: exec_include exec_if_include t del: exec.simps)
  let ?s5 = "?s4\<lparr>macros := table_bitypes P env,
      log := log ?s4 @ optional (flag_set (table_unistd P env) ''HAVE_UNISTD_H'')
        (Included ''unistd.h'')\<rparr>"
  have 5: "execs P [Conditional (If_value ''HAVE_UNISTD_H'') [Include ''unistd.h''] []] ?s4
           = Inr ?s5"
    using ok(4) by (simp add: exec_include exec_if_include t del: exec.simps)
  let ?s6 = "?s5\<lparr>macros := table_substitutions P env,
      log := log ?s5 @ optional (flag_set (table_bitypes P env) ''HAVE_SYS_BITYPES_H'')
        (Included ''sys/bitypes.h'') @ [Included ''portable/stdbool.h'']\<rparr>"
  have 6: "execs P [Conditional (If_value ''HAVE_SYS_BITYPES_H'') [Include ''sys/bitypes.h''] [],
      Include ''portable/stdbool.h''] ?s5 = Inr ?s6"
    using ok(5) by (simp add: exec_include exec_if_include t del: exec.simps)
  have parts: "standard_headers =
      [Include ''config.h'', Include ''portable/macros.h''] @
      [Conditional (If_value ''HAVE_INTTYPES_H'') [Include ''inttypes.h''] [],
       Include ''stdarg.h'', Include ''stddef.h''] @
      [Conditional (If_value ''HAVE_STDINT_H'') [Include ''stdint.h''] [],
       Include ''stdio.h'', Include ''stdlib.h'', Include ''string.h''] @
      [Conditional (If_value ''HAVE_STRINGS_H'') [Include ''strings.h''] [],
       Include ''sys/types.h''] @
      [Conditional (If_value ''HAVE_UNISTD_H'') [Include ''unistd.h''] []] @
      [Conditional (If_value ''HAVE_SYS_BITYPES_H'') [Include ''sys/bitypes.h''] [],
       Include ''portable/stdbool.h'']"
    by (simp add: standard_headers_def)
  have "execs P standard_headers s = Inr ?s6"
    by (simp only: parts execs_append 1 2 3 4 5 6 sum.case)
  also have "?s6 = s\<lparr>macros := table_substitutions P env, log := log s @ headers_log P env\<rparr>"
    by (simp add: headers_log_def)
  finally show ?thesis .
qed

lemma execs_substitutions:
  "execs P substitutions s =
     Inr \<lparr>macros = table_end (macros s),
          log = log s @ substitutions_log (macros s),
          conflicts = conflicts s @ substitutions_conflicts (macros s)\<rparr>"
proof -
  let ?t = "macros s"
  let ?s1 = "\<lparr>macros = table_ssize_t ?t,
      log = log s @ optional (defined ?t ''_WIN32'') (Defined ''snprintf'' snprintf_alias),
      conflicts = conflicts s @
        optional (defined ?t ''_WIN32'' \<and> clashes ?t ''snprintf'' snprintf_alias) ''snprintf''\<rparr>"
  let ?s2 = "?s1\<lparr>log := log ?s1 @
      optional (\<not> defined ?t ''HAVE_SSIZE_T'') (Line (expand_line (table_ssize_t ?t) ssize_t_line))\<rparr>"
  let ?s3 = "\<lparr>macros = table_va_copy ?t,
      log = log ?s2 @ (if defined ?t ''STDIN_FILENO'' then [] else descriptor_definitions),
      conflicts = conflicts ?s2 @
        (if defined ?t ''STDIN_FILENO'' then []
         else optional (clashes ?t ''STDOUT_FILENO'' (Object [''1''])) ''STDOUT_FILENO'' @
              optional (clashes ?t ''STDERR_FILENO'' (Object [''2''])) ''STDERR_FILENO'')\<rparr>"
  let ?s4 = "\<lparr>macros = table_end ?t,
      log = log ?s3 @ optional (\<not> defined ?t ''va_copy'') (Defined ''va_copy'' (va_copy_choice ?t)),
      conflicts = conflicts ?s3\<rparr>"
  have b1: "exec P (Conditional (Ifdef ''_WIN32'') [Define ''snprintf'' snprintf_alias] []) s
            = Inr ?s1"
    by (simp add: optional_def table_ssize_t_def)
  have b2: "exec P (Conditional (Ifndef ''HAVE_SSIZE_T'') [Text ssize_t_line] []) ?s1 = Inr ?s2"
    by (simp add: optional_def defined_def table_ssize_t_def)
  have b3: "exec P (Conditional (Ifndef ''STDIN_FILENO'')
              [Define ''STDIN_FILENO'' (Object [''0'']),
               Define ''STDOUT_FILENO'' (Object [''1'']),
               Define ''STDERR_FILENO'' (Object [''2''])] []) ?s2 = Inr ?s3"
    by (simp add: optional_def defined_def clashes_def descriptor_definitions_def
        table_ssize_t_def table_va_copy_def)
  have b4: "exec P (Conditional (Ifndef ''va_copy'')
              [Conditional (Ifdef ''__va_copy'')
                 [Define ''va_copy'' va_copy_alias]
                 [Define ''va_copy'' va_copy_memcpy]] []) ?s3 = Inr ?s4"
    by (simp add: optional_def defined_def clashes_def va_copy_choice_def
        table_ssize_t_def table_va_copy_def table_end_def)
  have "execs P substitutions s = Inr ?s4"
    unfolding substitutions_def by (simp only: execs.simps b1 b2 b3 b4 sum.case)
  also have "?s4 = \<lparr>macros = table_end (macros s),
          log = log s @ substitutions_log (macros s),
          conflicts = conflicts s @ substitutions_conflicts (macros s)\<rparr>"
    by (simp add: substitutions_log_def substitutions_conflicts_def)
  finally show ?thesis .
qed

lemma execs_guard_define:
  assumes "\<not> defined env guard"
  shows "execs P (Define guard (Object [''1'']) # ds) (start env) =
         execs P ds \<lparr>macros = env(guard \<mapsto> Object [''1'']),
                     log = [Defined guard (Object [''1''])], conflicts = []\<rparr>"
  using assms by (simp add: start_def clashes_def defined_def)

lemma first_inclusion:
  assumes "\<not> defined env guard" and "tables_ok P env"
  shows "include_system_h P env = Inr (header_result P env)"
proof -
  let ?s = "\<lparr>macros = env(guard \<mapsto> Object [''1'']),
             log = [Defined guard (Object [''1''])], conflicts = []\<rparr>"
  have "include_system_h P env = execs P body (start env)"
    using assms(1)
    by (simp add: include_system_h_def system_h_def execs_single start_def
        del: execs.simps)
  also have "\<dots> = execs P (standard_headers @ substitutions) ?s"
    unfolding body_def by (rule execs_guard_define [OF assms(1)])
  also have "\<dots> = Inr (header_result P env)"
    by (simp add: execs_append execs_standard_headers [OF assms(2)] execs_substitutions
        header_result_def)
  finally show ?thesis .
qed

lemma later_inclusion:
  "defined (macros s) guard \<Longrightarrow> execs P system_h s = Inr s"
  by (simp add: system_h_def)

lemmas table_defs = table_inttypes_def table_stdint_def table_strings_def table_unistd_def
  table_bitypes_def table_substitutions_def

lemma visible_flags:
  assumes "\<not> defined env guard"
  shows "visible P env (If_value ''HAVE_INTTYPES_H'') = Some (table_inttypes P env)"
    and "flag_ok (table_inttypes P env) ''HAVE_INTTYPES_H'' \<Longrightarrow>
         visible P env (If_value ''HAVE_STDINT_H'') = Some (table_stdint P env)"
    and "flag_ok (table_inttypes P env) ''HAVE_INTTYPES_H'' \<Longrightarrow>
         flag_ok (table_stdint P env) ''HAVE_STDINT_H'' \<Longrightarrow>
         visible P env (If_value ''HAVE_STRINGS_H'') = Some (table_strings P env)"
    and "flag_ok (table_inttypes P env) ''HAVE_INTTYPES_H'' \<Longrightarrow>
         flag_ok (table_stdint P env) ''HAVE_STDINT_H'' \<Longrightarrow>
         flag_ok (table_strings P env) ''HAVE_STRINGS_H'' \<Longrightarrow>
         visible P env (If_value ''HAVE_UNISTD_H'') = Some (table_unistd P env)"
    and "flag_ok (table_inttypes P env) ''HAVE_INTTYPES_H'' \<Longrightarrow>
         flag_ok (table_stdint P env) ''HAVE_STDINT_H'' \<Longrightarrow>
         flag_ok (table_strings P env) ''HAVE_STRINGS_H'' \<Longrightarrow>
         flag_ok (table_unistd P env) ''HAVE_UNISTD_H'' \<Longrightarrow>
         visible P env (If_value ''HAVE_SYS_BITYPES_H'') = Some (table_bitypes P env)"
  using assms unfolding visible_def body_def standard_headers_def
  by (simp_all add: start_def clashes_def defined_def exec_include exec_if_include table_defs
      del: exec.simps(1) exec.simps(4))

lemma configuration_tables:
  "configuration P env \<longleftrightarrow> \<not> defined env guard \<and> tables_ok P env"
proof (cases "defined env guard")
  case True
  then show ?thesis by (simp add: configuration_def)
next
  case False
  note v = visible_flags [OF False, of P]
  show ?thesis
  proof
    assume "configuration P env"
    then have b: "boolean_flags P env" by (simp add: configuration_def)
    have 1: "flag_ok (table_inttypes P env) ''HAVE_INTTYPES_H''"
      using b by (simp add: boolean_flags_def flag_ok_at_def v(1))
    have 2: "flag_ok (table_stdint P env) ''HAVE_STDINT_H''"
      using b by (simp add: boolean_flags_def flag_ok_at_def v(2) [OF 1])
    have 3: "flag_ok (table_strings P env) ''HAVE_STRINGS_H''"
      using b by (simp add: boolean_flags_def flag_ok_at_def v(3) [OF 1 2])
    have 4: "flag_ok (table_unistd P env) ''HAVE_UNISTD_H''"
      using b by (simp add: boolean_flags_def flag_ok_at_def v(4) [OF 1 2 3])
    have 5: "flag_ok (table_bitypes P env) ''HAVE_SYS_BITYPES_H''"
      using b by (simp add: boolean_flags_def flag_ok_at_def v(5) [OF 1 2 3 4])
    from False 1 2 3 4 5 show "\<not> defined env guard \<and> tables_ok P env"
      by (simp add: tables_ok_def)
  next
    assume "\<not> defined env guard \<and> tables_ok P env"
    then have ok: "flag_ok (table_inttypes P env) ''HAVE_INTTYPES_H''"
      "flag_ok (table_stdint P env) ''HAVE_STDINT_H''"
      "flag_ok (table_strings P env) ''HAVE_STRINGS_H''"
      "flag_ok (table_unistd P env) ''HAVE_UNISTD_H''"
      "flag_ok (table_bitypes P env) ''HAVE_SYS_BITYPES_H''"
      by (simp_all add: tables_ok_def)
    show "configuration P env"
      using False ok
      by (simp add: configuration_def boolean_flags_def flag_ok_at_def v(1) v(2) [OF ok(1)]
          v(3) [OF ok(1,2)] v(4) [OF ok(1,2,3)] v(5) [OF ok(1,2,3,4)])
  qed
qed

lemma visible_flags_configuration:
  assumes "configuration P env"
  shows "visible P env (If_value ''HAVE_INTTYPES_H'') = Some (table_inttypes P env)"
    and "visible P env (If_value ''HAVE_STDINT_H'') = Some (table_stdint P env)"
    and "visible P env (If_value ''HAVE_STRINGS_H'') = Some (table_strings P env)"
    and "visible P env (If_value ''HAVE_UNISTD_H'') = Some (table_unistd P env)"
    and "visible P env (If_value ''HAVE_SYS_BITYPES_H'') = Some (table_bitypes P env)"
  using assms unfolding configuration_tables tables_ok_def
  by (simp_all add: visible_flags)

lemma include_system_h_configuration:
  assumes "configuration P env"
  shows "include_system_h P env = Inr (header_result P env)"
  using assms unfolding configuration_tables by (simp add: first_inclusion)

lemma reach_substitutions:
  assumes "configuration P env"
  shows "execs P (Define guard (Object [''1'']) # standard_headers @ bs) (start env) =
         execs P bs (after_headers P env)"
proof -
  from assms have g: "\<not> defined env guard" and ok: "tables_ok P env"
    by (simp_all add: configuration_tables)
  show ?thesis
    unfolding execs_guard_define [OF g]
    by (simp add: execs_append execs_standard_headers [OF ok] after_headers_def)
qed

lemma visible_substitutions:
  assumes "configuration P env"
  shows "visible P env (Ifdef ''_WIN32'') = Some (table_substitutions P env)"
    and "visible P env (Ifndef ''HAVE_SSIZE_T'') = Some (table_ssize_t (table_substitutions P env))"
    and "visible P env (Ifndef ''STDIN_FILENO'') = Some (table_ssize_t (table_substitutions P env))"
    and "visible P env (Ifndef ''va_copy'') = Some (table_va_copy (table_substitutions P env))"
proof -
  let ?p = "Define guard (Object [''1'']) # standard_headers"
  have pre: "takeWhile (\<lambda>d. \<not> tests_with (Ifdef ''_WIN32'') d) body = ?p @ []"
    "takeWhile (\<lambda>d. \<not> tests_with (Ifndef ''HAVE_SSIZE_T'') d) body = ?p @ take 1 substitutions"
    "takeWhile (\<lambda>d. \<not> tests_with (Ifndef ''STDIN_FILENO'') d) body = ?p @ take 2 substitutions"
    "takeWhile (\<lambda>d. \<not> tests_with (Ifndef ''va_copy'') d) body = ?p @ take 3 substitutions"
    by (simp_all add: body_def standard_headers_def substitutions_def)
  have run: "execs P (?p @ bs) (start env) = execs P bs (after_headers P env)" for bs
    using reach_substitutions [OF assms, of bs] by simp
  show "visible P env (Ifdef ''_WIN32'') = Some (table_substitutions P env)"
    unfolding visible_def pre run by (simp add: after_headers_def)
  show "visible P env (Ifndef ''HAVE_SSIZE_T'') = Some (table_ssize_t (table_substitutions P env))"
    unfolding visible_def pre run
    by (simp add: after_headers_def substitutions_def table_ssize_t_def)
  show "visible P env (Ifndef ''STDIN_FILENO'') = Some (table_ssize_t (table_substitutions P env))"
    unfolding visible_def pre run
    by (simp add: after_headers_def substitutions_def table_ssize_t_def defined_def
        numeral_2_eq_2)
  show "visible P env (Ifndef ''va_copy'') = Some (table_va_copy (table_substitutions P env))"
    unfolding visible_def pre run
    by (simp add: after_headers_def substitutions_def table_ssize_t_def table_va_copy_def
        defined_def numeral_3_eq_3)
qed

lemma definitions_of_append [simp]:
  "definitions_of n (xs @ ys) = definitions_of n xs @ definitions_of n ys"
  by (induction n xs rule: definitions_of.induct) simp_all

lemma declarations_of_append [simp]:
  "declarations_of n (xs @ ys) = declarations_of n xs @ declarations_of n ys"
  by (induction n xs rule: declarations_of.induct) simp_all

lemma inclusions_append [simp]:
  "inclusions (xs @ ys) = inclusions xs @ inclusions ys"
  by (induction xs rule: inclusions.induct) simp_all

lemma definitions_of_headers_log: "definitions_of n (headers_log P env) = []"
  by (simp add: headers_log_def optional_def)

lemma declarations_of_headers_log: "declarations_of n (headers_log P env) = []"
  by (simp add: headers_log_def optional_def)

lemma inclusions_substitutions_log: "inclusions (substitutions_log t) = []"
  by (simp add: substitutions_log_def optional_def descriptor_definitions_def)

lemma inclusions_headers_log:
  "inclusions (headers_log P env) =
     [''config.h'', ''portable/macros.h''] @
     optional (flag_set (table_inttypes P env) ''HAVE_INTTYPES_H'') ''inttypes.h'' @
     [''stdarg.h'', ''stddef.h''] @
     optional (flag_set (table_stdint P env) ''HAVE_STDINT_H'') ''stdint.h'' @
     [''stdio.h'', ''stdlib.h'', ''string.h''] @
     optional (flag_set (table_strings P env) ''HAVE_STRINGS_H'') ''strings.h'' @
     [''sys/types.h''] @
     optional (flag_set (table_unistd P env) ''HAVE_UNISTD_H'') ''unistd.h'' @
     optional (flag_set (table_bitypes P env) ''HAVE_SYS_BITYPES_H'') ''sys/bitypes.h'' @
     [''portable/stdbool.h'']"
  by (simp add: headers_log_def optional_def)

lemma definitions_of_header_result:
  "n \<noteq> guard \<Longrightarrow>
   definitions_of n (log (header_result P env)) =
   definitions_of n (substitutions_log (table_substitutions P env))"
  by (simp add: header_result_def definitions_of_headers_log)

lemma declarations_of_header_result:
  "declarations_of n (log (header_result P env)) =
   declarations_of n (substitutions_log (table_substitutions P env))"
  by (simp add: header_result_def declarations_of_headers_log)

lemma inclusions_header_result:
  "inclusions (log (header_result P env)) = inclusions (headers_log P env)"
  by (simp add: header_result_def inclusions_substitutions_log)

lemma snprintf_definitions:
  "definitions_of ''snprintf'' (substitutions_log t) =
     (if defined t ''_WIN32'' then [Object [''_snprintf'']] else [])"
  by (simp add: substitutions_log_def optional_def descriptor_definitions_def
      snprintf_alias_def)

lemma descriptor_definitions_of:
  "definitions_of ''STDIN_FILENO'' (substitutions_log t) =
     (if defined t ''STDIN_FILENO'' then [] else [Object [''0'']])"
  "definitions_of ''STDOUT_FILENO'' (substitutions_log t) =
     (if defined t ''STDIN_FILENO'' then [] else [Object [''1'']])"
  "definitions_of ''STDERR_FILENO'' (substitutions_log t) =
     (if defined t ''STDIN_FILENO'' then [] else [Object [''2'']])"
  by (simp_all add: substitutions_log_def optional_def descriptor_definitions_def)

lemma va_copy_definitions:
  "definitions_of ''va_copy'' (substitutions_log t) =
     (if defined t ''va_copy'' then [] else [va_copy_choice t])"
  by (simp add: substitutions_log_def optional_def descriptor_definitions_def)

lemma defined_define_all: "defined t n \<Longrightarrow> defined (define_all ds t) n"
  by (induction ds t rule: define_all.induct) (simp_all add: defined_def)

lemma defined_inc: "defined t n \<Longrightarrow> defined (inc P f t) n"
  by (simp add: inc_def defined_define_all)

lemma defined_inc_if: "defined t n \<Longrightarrow> defined (inc_if P flag f t) n"
  by (simp add: inc_if_def defined_inc)

lemma defined_table_substitutions:
  "defined (env(guard \<mapsto> Object [''1''])) n \<Longrightarrow> defined (table_substitutions P env) n"
  unfolding table_defs by (intro defined_inc defined_inc_if)

lemma defined_table_ssize_t: "defined t n \<Longrightarrow> defined (table_ssize_t t) n"
  by (simp add: table_ssize_t_def defined_def)

lemma defined_table_va_copy: "defined t n \<Longrightarrow> defined (table_va_copy t) n"
  using defined_table_ssize_t [of t n] by (simp add: table_va_copy_def defined_def)

lemma defined_table_end: "defined t n \<Longrightarrow> defined (table_end t) n"
  using defined_table_va_copy [of t n] by (simp add: table_end_def defined_def)

lemma guard_after_inclusion: "defined (macros (header_result P env)) guard"
proof -
  have "defined (env(guard \<mapsto> Object [''1''])) guard"
    by (simp add: defined_def)
  then show ?thesis
    by (simp add: header_result_def defined_table_end defined_table_substitutions)
qed

lemma inclusion_succeeds:
  assumes "boolean_flags P env"
  shows "include_system_h P env =
         Inr (if defined env guard then start env else header_result P env)"
proof (cases "defined env guard")
  case True
  then show ?thesis
    by (simp add: include_system_h_def later_inclusion start_def)
next
  case False
  with assms have "configuration P env"
    by (simp add: configuration_def)
  with False show ?thesis
    by (simp add: include_system_h_configuration)
qed

lemmas evaluation = configuration_tables tables_ok_def table_defs inc_def inc_if_def
  flag_ok_def flag_set_def token_value_def decimal_constant_def octal_constant_def
  defined_def guard_def descriptor_macros_def

lemma configuration_examples:
  "configuration msvc win32" "configuration posix Map.empty"
  "configuration old_gcc Map.empty" "configuration freestanding stdin_only"
  by (simp_all add: evaluation msvc_def posix_def old_gcc_def freestanding_def win32_def
      stdin_only_def)

lemma defined_at_substitutions:
  assumes "configuration P env"
  shows "defined_at P env (Ifdef ''_WIN32'') n = defined (table_substitutions P env) n"
    and "n \<noteq> ''snprintf'' \<Longrightarrow>
         defined_at P env (Ifndef ''HAVE_SSIZE_T'') n = defined (table_substitutions P env) n"
    and "n \<noteq> ''snprintf'' \<Longrightarrow>
         defined_at P env (Ifndef ''STDIN_FILENO'') n = defined (table_substitutions P env) n"
  by (simp_all add: defined_at_def visible_substitutions [OF assms] table_ssize_t_def
      defined_def)

lemma defined_at_va_copy:
  assumes "configuration P env"
  shows "defined_at P env (Ifndef ''va_copy'') ''va_copy'' =
         defined (table_substitutions P env) ''va_copy''"
    and "defined_at P env (Ifndef ''va_copy'') ''__va_copy'' =
         defined (table_substitutions P env) ''__va_copy''"
  by (simp_all add: defined_at_def visible_substitutions [OF assms] table_ssize_t_def
      table_va_copy_def defined_def)

lemma flag_set_at_configuration:
  assumes "configuration P env"
  shows "flag_set_at P env ''HAVE_INTTYPES_H'' = flag_set (table_inttypes P env) ''HAVE_INTTYPES_H''"
    and "flag_set_at P env ''HAVE_STDINT_H'' = flag_set (table_stdint P env) ''HAVE_STDINT_H''"
    and "flag_set_at P env ''HAVE_STRINGS_H'' = flag_set (table_strings P env) ''HAVE_STRINGS_H''"
    and "flag_set_at P env ''HAVE_UNISTD_H'' = flag_set (table_unistd P env) ''HAVE_UNISTD_H''"
    and "flag_set_at P env ''HAVE_SYS_BITYPES_H'' =
         flag_set (table_bitypes P env) ''HAVE_SYS_BITYPES_H''"
  by (simp_all add: flag_set_at_def visible_flags_configuration [OF assms])

lemma lines_append [simp]: "lines (xs @ ys) = lines xs @ lines ys"
  by (induction xs rule: lines.induct) simp_all

lemma lines_headers_log: "lines (headers_log P env) = []"
  by (simp add: headers_log_def optional_def)

lemma lines_header_result:
  "lines (log (header_result P env)) = lines (substitutions_log (table_substitutions P env))"
  by (simp add: header_result_def lines_headers_log)

lemma expand_unchanged: "\<not> object_like env t \<Longrightarrow> expand (Suc k) env seen t = Some [t]"
  by (auto simp: object_like_def split: option.splits macro.splits)

lemma expand_line_intact:
  assumes "\<not> object_like t ''typedef''" "\<not> object_like t ''ptrdiff_t''"
    "\<not> object_like t ''ssize_t''" "\<not> object_like t '';''"
  shows "expand_line t ssize_t_line = Some [''typedef'', ''ptrdiff_t'', ''ssize_t'', '';'']"
proof -
  have "expand 64 t [] x = Some [x]" if "\<not> object_like t x" for x
    using expand_unchanged [OF that, of 63 "[]"] by simp
  with assms show ?thesis
    by (simp add: expand_line_def ssize_t_line_def)
qed

lemma object_like_table_ssize_t:
  "n \<noteq> ''snprintf'' \<Longrightarrow> object_like (table_ssize_t t) n = object_like t n"
  by (simp add: table_ssize_t_def object_like_def)

lemma substitutions_lines:
  "lines (substitutions_log t) =
     (if defined t ''HAVE_SSIZE_T'' then [] else [expand_line (table_ssize_t t) ssize_t_line])"
  by (simp add: substitutions_log_def optional_def descriptor_definitions_def)

lemma substitutions_declarations:
  "declarations_of n (substitutions_log t) =
     (if defined t ''HAVE_SSIZE_T'' then []
      else declarations_of n [Line (expand_line (table_ssize_t t) ssize_t_line)])"
  by (simp add: substitutions_log_def optional_def descriptor_definitions_def)

lemma more_configurations:
  "configuration posix stdin_only" "configuration freestanding ssize_t_as_int"
  "configuration freestanding Map.empty"
  by (simp_all add: evaluation posix_def freestanding_def stdin_only_def ssize_t_as_int_def)

lemma replaced_at_ssize_t:
  assumes "configuration P env" and "t \<noteq> ''snprintf''"
  shows "replaced_at P env (Ifndef ''HAVE_SSIZE_T'') t =
         object_like (table_ssize_t (table_substitutions P env)) t"
  by (simp add: replaced_at_def visible_substitutions [OF assms(1)])

lemma posix_headers_configurations:
  "configuration posix_headers Map.empty" "configuration posix_headers with_unistd"
  by (simp_all add: evaluation posix_headers_def with_unistd_def)

lemma entry_at_descriptors:
  assumes "configuration P env" and "defined (table_substitutions P env) ''STDIN_FILENO''"
  shows "macros (header_result P env) ''STDIN_FILENO'' =
         entry_at P env (Ifndef ''STDIN_FILENO'') ''STDIN_FILENO''"
    and "macros (header_result P env) ''STDOUT_FILENO'' =
         entry_at P env (Ifndef ''STDIN_FILENO'') ''STDOUT_FILENO''"
    and "macros (header_result P env) ''STDERR_FILENO'' =
         entry_at P env (Ifndef ''STDIN_FILENO'') ''STDERR_FILENO''"
  using assms(2)
  by (simp_all add: entry_at_def visible_substitutions [OF assms(1)] header_result_def
      table_end_def table_va_copy_def table_ssize_t_def defined_def)

lemma line_at_configuration:
  assumes "configuration P env"
  shows "line_at P env = expand_line (table_ssize_t (table_substitutions P env)) ssize_t_line"
  by (simp add: line_at_def visible_substitutions [OF assms])

lemma line_at_intact:
  assumes "configuration P env"
    and "\<not> replaced_at P env (Ifndef ''HAVE_SSIZE_T'') ''typedef''"
    and "\<not> replaced_at P env (Ifndef ''HAVE_SSIZE_T'') ''ptrdiff_t''"
    and "\<not> replaced_at P env (Ifndef ''HAVE_SSIZE_T'') ''ssize_t''"
    and "\<not> replaced_at P env (Ifndef ''HAVE_SSIZE_T'') '';''"
  shows "line_at P env = Some [''typedef'', ''ptrdiff_t'', ''ssize_t'', '';'']"
  unfolding line_at_configuration [OF assms(1)]
  using assms(2-) by (intro expand_line_intact) (simp_all add: replaced_at_ssize_t [OF assms(1)])

lemmas examples = msvc_def posix_def old_gcc_def freestanding_def win32_def stdin_only_def
  object_like_def table_ssize_t_def

lemma msvc_win32_facts:
  "defined_at msvc win32 (Ifdef ''_WIN32'') ''_WIN32''"
  "\<not> defined_at msvc win32 (Ifndef ''HAVE_SSIZE_T'') ''HAVE_SSIZE_T''"
  "\<not> defined_at msvc win32 (Ifndef ''STDIN_FILENO'') ''STDIN_FILENO''"
  "\<not> defined_at msvc win32 (Ifndef ''va_copy'') ''va_copy''"
  "\<not> defined_at msvc win32 (Ifndef ''va_copy'') ''__va_copy''"
  "\<not> flag_set_at msvc win32 ''HAVE_INTTYPES_H''"
  "flag_set_at msvc win32 ''HAVE_STDINT_H''"
  "\<not> flag_set_at msvc win32 ''HAVE_STRINGS_H''"
  "\<not> flag_set_at msvc win32 ''HAVE_UNISTD_H''"
  "\<not> flag_set_at msvc win32 ''HAVE_SYS_BITYPES_H''"
  "\<not> replaced_at msvc win32 (Ifndef ''HAVE_SSIZE_T'') ''typedef''"
  "\<not> replaced_at msvc win32 (Ifndef ''HAVE_SSIZE_T'') ''ptrdiff_t''"
  "\<not> replaced_at msvc win32 (Ifndef ''HAVE_SSIZE_T'') ''ssize_t''"
  "\<not> replaced_at msvc win32 (Ifndef ''HAVE_SSIZE_T'') '';''"
  by (simp_all add: defined_at_substitutions defined_at_va_copy flag_set_at_configuration
      replaced_at_ssize_t configuration_examples)
    (simp_all add: evaluation examples)

lemma freestanding_empty_facts:
  "\<not> defined_at freestanding Map.empty (Ifdef ''_WIN32'') ''_WIN32''"
  "\<not> defined_at freestanding Map.empty (Ifndef ''HAVE_SSIZE_T'') ''HAVE_SSIZE_T''"
  "\<not> defined_at freestanding Map.empty (Ifndef ''STDIN_FILENO'') ''STDIN_FILENO''"
  "\<not> defined_at freestanding Map.empty (Ifndef ''va_copy'') ''va_copy''"
  "\<not> defined_at freestanding Map.empty (Ifndef ''va_copy'') ''__va_copy''"
  "\<not> flag_set_at freestanding Map.empty ''HAVE_INTTYPES_H''"
  "\<not> flag_set_at freestanding Map.empty ''HAVE_STDINT_H''"
  "\<not> flag_set_at freestanding Map.empty ''HAVE_STRINGS_H''"
  "\<not> flag_set_at freestanding Map.empty ''HAVE_UNISTD_H''"
  "\<not> flag_set_at freestanding Map.empty ''HAVE_SYS_BITYPES_H''"
  "\<not> replaced_at freestanding Map.empty (Ifndef ''HAVE_SSIZE_T'') ''typedef''"
  "\<not> replaced_at freestanding Map.empty (Ifndef ''HAVE_SSIZE_T'') ''ptrdiff_t''"
  "\<not> replaced_at freestanding Map.empty (Ifndef ''HAVE_SSIZE_T'') ''ssize_t''"
  "\<not> replaced_at freestanding Map.empty (Ifndef ''HAVE_SSIZE_T'') '';''"
  by (simp_all add: defined_at_substitutions defined_at_va_copy flag_set_at_configuration
      replaced_at_ssize_t more_configurations)
    (simp_all add: evaluation examples)

lemma old_gcc_facts:
  "\<not> defined_at old_gcc Map.empty (Ifdef ''_WIN32'') ''_WIN32''"
  "defined_at old_gcc Map.empty (Ifndef ''HAVE_SSIZE_T'') ''HAVE_SSIZE_T''"
  "defined_at old_gcc Map.empty (Ifndef ''STDIN_FILENO'') ''STDIN_FILENO''"
  "\<not> defined_at old_gcc Map.empty (Ifndef ''va_copy'') ''va_copy''"
  "defined_at old_gcc Map.empty (Ifndef ''va_copy'') ''__va_copy''"
  "\<not> flag_set_at old_gcc Map.empty ''HAVE_INTTYPES_H''"
  "\<not> flag_set_at old_gcc Map.empty ''HAVE_STDINT_H''"
  "\<not> flag_set_at old_gcc Map.empty ''HAVE_STRINGS_H''"
  "flag_set_at old_gcc Map.empty ''HAVE_UNISTD_H''"
  "flag_set_at old_gcc Map.empty ''HAVE_SYS_BITYPES_H''"
  by (simp_all add: defined_at_substitutions defined_at_va_copy flag_set_at_configuration
      configuration_examples)
    (simp_all add: evaluation examples)

lemma freestanding_stdin_facts:
  "\<not> defined_at freestanding stdin_only (Ifdef ''_WIN32'') ''_WIN32''"
  "\<not> defined_at freestanding stdin_only (Ifndef ''HAVE_SSIZE_T'') ''HAVE_SSIZE_T''"
  "defined_at freestanding stdin_only (Ifndef ''STDIN_FILENO'') ''STDIN_FILENO''"
  "\<not> defined_at freestanding stdin_only (Ifndef ''va_copy'') ''va_copy''"
  "\<not> defined_at freestanding stdin_only (Ifndef ''va_copy'') ''__va_copy''"
  "\<not> flag_set_at freestanding stdin_only ''HAVE_INTTYPES_H''"
  "\<not> flag_set_at freestanding stdin_only ''HAVE_STDINT_H''"
  "\<not> flag_set_at freestanding stdin_only ''HAVE_STRINGS_H''"
  "\<not> flag_set_at freestanding stdin_only ''HAVE_UNISTD_H''"
  "\<not> flag_set_at freestanding stdin_only ''HAVE_SYS_BITYPES_H''"
  by (simp_all add: defined_at_substitutions defined_at_va_copy flag_set_at_configuration
      configuration_examples)
    (simp_all add: evaluation examples)








lemma integer_types_counts:
  "list_all (\<lambda>n. count_list (integer_types @ xs) n = Suc (count_list xs n)) integer_types"
  by (simp add: integer_types_def)





section \<open>The claims\<close>




text \<open>
  C2, as stated: in every configuration in which \<open>va_copy\<close> is not defined before the
  inclusion, the header defines it. This fails on the POSIX platform with nothing
  defined before the inclusion: \<open>stdarg.h\<close>, which the header includes at line 49,
  defines \<open>va_copy\<close>, and the header then defines none.
\<close>

theorem va_copy_counterexample:
  "configuration posix Map.empty \<and> \<not> defined Map.empty ''va_copy'' \<and>
   header_defines posix Map.empty ''va_copy'' = Some []"
  by (simp add: configuration_examples header_defines_def include_system_h_configuration
      definitions_of_header_result va_copy_definitions guard_def)
    (simp add: evaluation posix_def)

text \<open>
  C2, amended: in every configuration in which \<open>va_copy\<close> is not defined at the test of
  line 97, after the files the header includes, the header defines it, as
  \<open>__va_copy((d), (s))\<close> when \<open>__va_copy\<close> is defined there and as
  \<open>memcpy(&(d), &(s), sizeof(va_list))\<close> otherwise; where \<open>va_copy\<close> is defined at that
  test, the header does not define it.
\<close>

theorem va_copy_fallback:
  assumes "configuration P env"
  shows "\<exists>r. include_system_h P env = Inr r \<and>
           definitions_of ''va_copy'' (log r) =
             (if defined_at P env (Ifndef ''va_copy'') ''va_copy'' then []
              else if defined_at P env (Ifndef ''va_copy'') ''__va_copy''
              then [Function [''d'', ''s'']
                      [''__va_copy'', ''('', ''('', ''d'', '')'', '','', ''('', ''s'', '')'', '')'']]
              else [Function [''d'', ''s'']
                      [''memcpy'', ''('', ''&'', ''('', ''d'', '')'', '','', ''&'', ''('', ''s'',
                       '')'', '','', ''sizeof'', ''('', ''va_list'', '')'', '')'']])"
  by (simp add: include_system_h_configuration [OF assms] definitions_of_header_result
      va_copy_definitions va_copy_choice_def defined_at_va_copy [OF assms] guard_def
      va_copy_alias_def va_copy_memcpy_def)

theorem va_copy_fallback_witness:
  "configuration old_gcc Map.empty \<and>
   (\<exists>r. include_system_h old_gcc Map.empty = Inr r \<and>
        definitions_of ''va_copy'' (log r) =
          [Function [''d'', ''s'']
             [''__va_copy'', ''('', ''('', ''d'', '')'', '','', ''('', ''s'', '')'', '')'']]) \<and>
   configuration msvc win32 \<and>
   (\<exists>r. include_system_h msvc win32 = Inr r \<and>
        definitions_of ''va_copy'' (log r) =
          [Function [''d'', ''s'']
             [''memcpy'', ''('', ''&'', ''('', ''d'', '')'', '','', ''&'', ''('', ''s'',
              '')'', '','', ''sizeof'', ''('', ''va_list'', '')'', '')'']])"
proof -
  have a: "\<not> defined_at old_gcc Map.empty (Ifndef ''va_copy'') ''va_copy''"
    "defined_at old_gcc Map.empty (Ifndef ''va_copy'') ''__va_copy''"
    by (simp_all add: defined_at_va_copy configuration_examples)
      (simp_all add: evaluation old_gcc_def)
  have b: "\<not> defined_at msvc win32 (Ifndef ''va_copy'') ''va_copy''"
    "\<not> defined_at msvc win32 (Ifndef ''va_copy'') ''__va_copy''"
    by (simp_all add: defined_at_va_copy configuration_examples)
      (simp_all add: evaluation msvc_def win32_def)
  from va_copy_fallback [of old_gcc Map.empty] va_copy_fallback [of msvc win32] a b
  show ?thesis
    by (simp add: configuration_examples)
qed

text \<open>
  C3, as stated: in every configuration in which the stream descriptor constants are
  absent before the inclusion, the header defines the three of them. This fails on the
  POSIX platform with nothing defined before the inclusion: \<open>unistd.h\<close>, which the
  header includes at line 62, defines them, and the header then defines none.
\<close>

theorem stream_descriptors_counterexample:
  "configuration posix Map.empty \<and>
   \<not> defined Map.empty ''STDIN_FILENO'' \<and> \<not> defined Map.empty ''STDOUT_FILENO'' \<and>
   \<not> defined Map.empty ''STDERR_FILENO'' \<and>
   header_defines posix Map.empty ''STDIN_FILENO'' = Some [] \<and>
   header_defines posix Map.empty ''STDOUT_FILENO'' = Some [] \<and>
   header_defines posix Map.empty ''STDERR_FILENO'' = Some []"
  by (simp add: configuration_examples header_defines_def include_system_h_configuration
      definitions_of_header_result descriptor_definitions_of guard_def)
    (simp add: evaluation posix_def)

text \<open>
  C3, amended: in every configuration in which \<open>STDIN_FILENO\<close> is not defined at the
  test of line 87, after the files the header includes, the header defines the three
  constants, \<open>STDIN_FILENO\<close> as 0, \<open>STDOUT_FILENO\<close> as 1 and \<open>STDERR_FILENO\<close> as 2; where
  \<open>STDIN_FILENO\<close> is defined at that test, it defines none of them.
\<close>

theorem stream_descriptors_when_absent:
  assumes "configuration P env"
  shows "\<exists>r. include_system_h P env = Inr r \<and>
           definitions_of ''STDIN_FILENO'' (log r) =
             (if defined_at P env (Ifndef ''STDIN_FILENO'') ''STDIN_FILENO''
              then [] else [Object [''0'']]) \<and>
           definitions_of ''STDOUT_FILENO'' (log r) =
             (if defined_at P env (Ifndef ''STDIN_FILENO'') ''STDIN_FILENO''
              then [] else [Object [''1'']]) \<and>
           definitions_of ''STDERR_FILENO'' (log r) =
             (if defined_at P env (Ifndef ''STDIN_FILENO'') ''STDIN_FILENO''
              then [] else [Object [''2'']])"
  by (simp add: include_system_h_configuration [OF assms] definitions_of_header_result
      descriptor_definitions_of defined_at_substitutions [OF assms] guard_def)

theorem stream_descriptors_when_absent_witness:
  "configuration msvc win32 \<and>
   (\<exists>r. include_system_h msvc win32 = Inr r \<and>
        definitions_of ''STDIN_FILENO'' (log r) = [Object [''0'']] \<and>
        definitions_of ''STDOUT_FILENO'' (log r) = [Object [''1'']] \<and>
        definitions_of ''STDERR_FILENO'' (log r) = [Object [''2'']])"
proof -
  have "\<not> defined_at msvc win32 (Ifndef ''STDIN_FILENO'') ''STDIN_FILENO''"
    by (simp add: defined_at_substitutions configuration_examples)
      (simp add: evaluation msvc_def win32_def)
  with stream_descriptors_when_absent [of msvc win32] show ?thesis
    by (simp add: configuration_examples)
qed

text \<open>
  C4: in every configuration, the header defines \<open>snprintf\<close>, as \<open>_snprintf\<close>, if and
  only if \<open>_WIN32\<close> is defined at the test of line 74.
\<close>

theorem snprintf_alias_iff_win32:
  assumes "configuration P env"
  shows "\<exists>r. include_system_h P env = Inr r \<and>
           definitions_of ''snprintf'' (log r) =
             (if defined_at P env (Ifdef ''_WIN32'') ''_WIN32''
              then [Object [''_snprintf'']] else [])"
  by (simp add: include_system_h_configuration [OF assms] definitions_of_header_result
      snprintf_definitions defined_at_substitutions [OF assms] guard_def)

theorem snprintf_alias_iff_win32_witness:
  "configuration msvc win32 \<and>
   (\<exists>r. include_system_h msvc win32 = Inr r \<and>
        definitions_of ''snprintf'' (log r) = [Object [''_snprintf'']])"
proof -
  have "defined_at msvc win32 (Ifdef ''_WIN32'') ''_WIN32''"
    by (simp add: defined_at_substitutions configuration_examples)
      (simp add: evaluation msvc_def win32_def)
  with snprintf_alias_iff_win32 [of msvc win32] show ?thesis
    by (simp add: configuration_examples)
qed

text \<open>
  C5, as stated: in every configuration in which \<open>HAVE_SSIZE_T\<close> is not defined, the
  header defines \<open>ssize_t\<close> as \<open>ptrdiff_t\<close>. This fails where \<open>ssize_t\<close> is itself a
  macro: line 80 is a text line, the preprocessor replaces the macro in it, and what
  the header passes on is \<open>typedef ptrdiff_t int;\<close>, which declares no \<open>ssize_t\<close>.
\<close>

theorem ssize_t_counterexample:
  "configuration freestanding ssize_t_as_int \<and>
   \<not> defined_at freestanding ssize_t_as_int (Ifndef ''HAVE_SSIZE_T'') ''HAVE_SSIZE_T'' \<and>
   header_lines freestanding ssize_t_as_int = Some [Some [''typedef'', ''ptrdiff_t'', ''int'', '';'']] \<and>
   header_declares freestanding ssize_t_as_int ''ssize_t'' = Some []"
proof -
  have c: "configuration freestanding ssize_t_as_int"
    by (rule more_configurations)
  have t: "table_ssize_t (table_substitutions freestanding ssize_t_as_int) =
           [''ssize_t'' \<mapsto> Object [''int''], guard \<mapsto> Object [''1'']]"
    by (simp add: table_defs inc_def inc_if_def freestanding_def ssize_t_as_int_def
        table_ssize_t_def defined_def guard_def)
  have d: "\<not> defined (table_substitutions freestanding ssize_t_as_int) ''HAVE_SSIZE_T''"
    by (simp add: table_defs inc_def inc_if_def freestanding_def ssize_t_as_int_def
        defined_def guard_def)
  have e: "expand_line [''ssize_t'' \<mapsto> Object [''int''], guard \<mapsto> Object [''1'']] ssize_t_line
           = Some [''typedef'', ''ptrdiff_t'', ''int'', '';'']"
    by (simp add: expand_line_def ssize_t_line_def guard_def eval_nat_numeral)
  show ?thesis
    using c d
    by (simp add: defined_at_substitutions header_lines_def header_declares_def
        include_system_h_configuration lines_header_result declarations_of_header_result
        substitutions_lines substitutions_declarations t e)
qed

text \<open>
  C5, amended: in every configuration in which \<open>HAVE_SSIZE_T\<close> is not defined at the
  test of line 79 and none of the tokens of line 80 is an object-like macro there, the
  header declares \<open>ssize_t\<close>, as \<open>ptrdiff_t\<close>; where \<open>HAVE_SSIZE_T\<close> is defined at that
  test, the header passes on no declaration at all.
\<close>

theorem ssize_t_when_absent:
  assumes "configuration P env"
  shows "\<exists>r. include_system_h P env = Inr r \<and>
           (defined_at P env (Ifndef ''HAVE_SSIZE_T'') ''HAVE_SSIZE_T'' \<longrightarrow>
              declarations_of ''ssize_t'' (log r) = [] \<and> lines (log r) = []) \<and>
           (\<not> defined_at P env (Ifndef ''HAVE_SSIZE_T'') ''HAVE_SSIZE_T'' \<and>
            \<not> replaced_at P env (Ifndef ''HAVE_SSIZE_T'') ''typedef'' \<and>
            \<not> replaced_at P env (Ifndef ''HAVE_SSIZE_T'') ''ptrdiff_t'' \<and>
            \<not> replaced_at P env (Ifndef ''HAVE_SSIZE_T'') ''ssize_t'' \<and>
            \<not> replaced_at P env (Ifndef ''HAVE_SSIZE_T'') '';'' \<longrightarrow>
              declarations_of ''ssize_t'' (log r) = [''ptrdiff_t''] \<and>
              lines (log r) = [Some [''typedef'', ''ptrdiff_t'', ''ssize_t'', '';'']])"
proof -
  let ?T = "table_substitutions P env"
  have d: "defined_at P env (Ifndef ''HAVE_SSIZE_T'') ''HAVE_SSIZE_T'' = defined ?T ''HAVE_SSIZE_T''"
    by (simp add: defined_at_substitutions [OF assms])
  have r: "replaced_at P env (Ifndef ''HAVE_SSIZE_T'') t = object_like (table_ssize_t ?T) t"
    if "t \<noteq> ''snprintf''" for t
    using that by (rule replaced_at_ssize_t [OF assms])
  have intact: "expand_line (table_ssize_t ?T) ssize_t_line =
                Some [''typedef'', ''ptrdiff_t'', ''ssize_t'', '';'']"
    if "\<not> replaced_at P env (Ifndef ''HAVE_SSIZE_T'') ''typedef''"
      "\<not> replaced_at P env (Ifndef ''HAVE_SSIZE_T'') ''ptrdiff_t''"
      "\<not> replaced_at P env (Ifndef ''HAVE_SSIZE_T'') ''ssize_t''"
      "\<not> replaced_at P env (Ifndef ''HAVE_SSIZE_T'') '';''"
    using that by (intro expand_line_intact) (simp_all add: r)
  show ?thesis
    using intact
    by (auto simp: include_system_h_configuration [OF assms] lines_header_result
        declarations_of_header_result substitutions_lines substitutions_declarations d)
qed

theorem ssize_t_when_absent_witness:
  "configuration msvc win32 \<and>
   \<not> defined_at msvc win32 (Ifndef ''HAVE_SSIZE_T'') ''HAVE_SSIZE_T'' \<and>
   (\<exists>r. include_system_h msvc win32 = Inr r \<and>
        declarations_of ''ssize_t'' (log r) = [''ptrdiff_t''] \<and>
        lines (log r) = [Some [''typedef'', ''ptrdiff_t'', ''ssize_t'', '';'']]) \<and>
   configuration posix Map.empty \<and>
   defined_at posix Map.empty (Ifndef ''HAVE_SSIZE_T'') ''HAVE_SSIZE_T'' \<and>
   (\<exists>r. include_system_h posix Map.empty = Inr r \<and>
        declarations_of ''ssize_t'' (log r) = [] \<and> lines (log r) = [])"
proof -
  have a: "\<not> defined_at msvc win32 (Ifndef ''HAVE_SSIZE_T'') ''HAVE_SSIZE_T''"
    by (simp add: defined_at_substitutions configuration_examples)
      (simp add: evaluation msvc_def win32_def)
  have b: "\<not> replaced_at msvc win32 (Ifndef ''HAVE_SSIZE_T'') ''typedef''"
    "\<not> replaced_at msvc win32 (Ifndef ''HAVE_SSIZE_T'') ''ptrdiff_t''"
    "\<not> replaced_at msvc win32 (Ifndef ''HAVE_SSIZE_T'') ''ssize_t''"
    "\<not> replaced_at msvc win32 (Ifndef ''HAVE_SSIZE_T'') '';''"
    by (simp_all add: replaced_at_ssize_t configuration_examples)
      (simp_all add: evaluation msvc_def win32_def object_like_def table_ssize_t_def)
  have c: "defined_at posix Map.empty (Ifndef ''HAVE_SSIZE_T'') ''HAVE_SSIZE_T''"
    by (simp add: defined_at_substitutions configuration_examples)
      (simp add: evaluation posix_def)
  from ssize_t_when_absent [of msvc win32] ssize_t_when_absent [of posix Map.empty] a b c
  show ?thesis
    by (simp add: configuration_examples)
qed

text \<open>
  C6: in every configuration, each of the five conditional headers is included if and
  only if its flag is set where it is tested: \<open>inttypes.h\<close> with \<open>HAVE_INTTYPES_H\<close>,
  \<open>stdint.h\<close> with \<open>HAVE_STDINT_H\<close>, \<open>strings.h\<close> with \<open>HAVE_STRINGS_H\<close>, \<open>unistd.h\<close> with
  \<open>HAVE_UNISTD_H\<close> and \<open>sys/bitypes.h\<close> with \<open>HAVE_SYS_BITYPES_H\<close>.
\<close>

theorem headers_follow_flags:
  assumes "configuration P env"
  shows "\<exists>r. include_system_h P env = Inr r \<and>
           (''inttypes.h'' \<in> set (inclusions (log r)) \<longleftrightarrow>
              flag_set_at P env ''HAVE_INTTYPES_H'') \<and>
           (''stdint.h'' \<in> set (inclusions (log r)) \<longleftrightarrow>
              flag_set_at P env ''HAVE_STDINT_H'') \<and>
           (''strings.h'' \<in> set (inclusions (log r)) \<longleftrightarrow>
              flag_set_at P env ''HAVE_STRINGS_H'') \<and>
           (''unistd.h'' \<in> set (inclusions (log r)) \<longleftrightarrow>
              flag_set_at P env ''HAVE_UNISTD_H'') \<and>
           (''sys/bitypes.h'' \<in> set (inclusions (log r)) \<longleftrightarrow>
              flag_set_at P env ''HAVE_SYS_BITYPES_H'')"
  by (simp add: include_system_h_configuration [OF assms] inclusions_header_result
      inclusions_headers_log flag_set_at_configuration [OF assms] optional_def)

theorem headers_follow_flags_witness:
  "configuration old_gcc Map.empty \<and>
   (\<exists>r. include_system_h old_gcc Map.empty = Inr r \<and>
        ''inttypes.h'' \<notin> set (inclusions (log r)) \<and>
        ''stdint.h'' \<notin> set (inclusions (log r)) \<and>
        ''strings.h'' \<notin> set (inclusions (log r)) \<and>
        ''unistd.h'' \<in> set (inclusions (log r)) \<and>
        ''sys/bitypes.h'' \<in> set (inclusions (log r)))"
proof -
  have "\<not> flag_set_at old_gcc Map.empty ''HAVE_INTTYPES_H''"
    "\<not> flag_set_at old_gcc Map.empty ''HAVE_STDINT_H''"
    "\<not> flag_set_at old_gcc Map.empty ''HAVE_STRINGS_H''"
    "flag_set_at old_gcc Map.empty ''HAVE_UNISTD_H''"
    "flag_set_at old_gcc Map.empty ''HAVE_SYS_BITYPES_H''"
    by (simp_all add: flag_set_at_configuration configuration_examples)
      (simp_all add: evaluation old_gcc_def)
  with headers_follow_flags [of old_gcc Map.empty] show ?thesis
    by (simp add: configuration_examples)
qed

text \<open>
  C7, as stated: two configurations that agree on whether \<open>STDIN_FILENO\<close> is defined
  before the inclusion get the same descriptor constants from the header, whatever
  their other flags. This fails for two translation units on the POSIX headers, both
  without \<open>STDIN_FILENO\<close>, of which one sets \<open>HAVE_UNISTD_H\<close>: the flag makes the header
  include \<open>unistd.h\<close>, which defines the constants before the header tests them.
\<close>

theorem interaction_counterexample:
  "configuration posix_headers Map.empty \<and> configuration posix_headers with_unistd \<and>
   defined Map.empty ''STDIN_FILENO'' = defined with_unistd ''STDIN_FILENO'' \<and>
   header_defines posix_headers Map.empty ''STDIN_FILENO'' = Some [Object [''0'']] \<and>
   header_defines posix_headers with_unistd ''STDIN_FILENO'' = Some []"
  by (simp add: posix_headers_configurations header_defines_def
      include_system_h_configuration definitions_of_header_result descriptor_definitions_of
      guard_def)
    (simp add: evaluation posix_headers_def with_unistd_def)

text \<open>
  C7, amended: the substitutions do not interact beyond what the included files
  define. For two configurations, whatever else differs between them: if they agree on
  whether \<open>_WIN32\<close> is defined at the test of line 74, the header defines the same for
  \<open>snprintf\<close> in both; if they agree on whether \<open>HAVE_SSIZE_T\<close> is defined at the test of
  line 79 and on what line 80 is replaced by, it passes on the same declaration; if
  they agree on whether \<open>STDIN_FILENO\<close> is defined at the test of line 87, it defines the
  same for the three descriptor constants; if they agree on whether \<open>va_copy\<close> and
  \<open>__va_copy\<close> are defined at the test of line 97, it defines the same for \<open>va_copy\<close>;
  and if they agree on whether a header's flag is set where it is tested, that header
  is included in both or in neither.
\<close>

theorem substitutions_do_not_interact:
  assumes "configuration P a" and "configuration Q b"
  shows "\<exists>ra rb. include_system_h P a = Inr ra \<and> include_system_h Q b = Inr rb \<and>
           (defined_at P a (Ifdef ''_WIN32'') ''_WIN32'' =
            defined_at Q b (Ifdef ''_WIN32'') ''_WIN32'' \<longrightarrow>
              definitions_of ''snprintf'' (log ra) = definitions_of ''snprintf'' (log rb)) \<and>
           (defined_at P a (Ifndef ''HAVE_SSIZE_T'') ''HAVE_SSIZE_T'' =
            defined_at Q b (Ifndef ''HAVE_SSIZE_T'') ''HAVE_SSIZE_T'' \<and>
            line_at P a = line_at Q b \<longrightarrow>
              lines (log ra) = lines (log rb)) \<and>
           (defined_at P a (Ifndef ''STDIN_FILENO'') ''STDIN_FILENO'' =
            defined_at Q b (Ifndef ''STDIN_FILENO'') ''STDIN_FILENO'' \<longrightarrow>
              definitions_of ''STDIN_FILENO'' (log ra) = definitions_of ''STDIN_FILENO'' (log rb) \<and>
              definitions_of ''STDOUT_FILENO'' (log ra) = definitions_of ''STDOUT_FILENO'' (log rb) \<and>
              definitions_of ''STDERR_FILENO'' (log ra) = definitions_of ''STDERR_FILENO'' (log rb)) \<and>
           (defined_at P a (Ifndef ''va_copy'') ''va_copy'' =
            defined_at Q b (Ifndef ''va_copy'') ''va_copy'' \<and>
            defined_at P a (Ifndef ''va_copy'') ''__va_copy'' =
            defined_at Q b (Ifndef ''va_copy'') ''__va_copy'' \<longrightarrow>
              definitions_of ''va_copy'' (log ra) = definitions_of ''va_copy'' (log rb)) \<and>
           (flag_set_at P a ''HAVE_INTTYPES_H'' = flag_set_at Q b ''HAVE_INTTYPES_H'' \<longrightarrow>
              (''inttypes.h'' \<in> set (inclusions (log ra))) =
              (''inttypes.h'' \<in> set (inclusions (log rb)))) \<and>
           (flag_set_at P a ''HAVE_STDINT_H'' = flag_set_at Q b ''HAVE_STDINT_H'' \<longrightarrow>
              (''stdint.h'' \<in> set (inclusions (log ra))) =
              (''stdint.h'' \<in> set (inclusions (log rb)))) \<and>
           (flag_set_at P a ''HAVE_STRINGS_H'' = flag_set_at Q b ''HAVE_STRINGS_H'' \<longrightarrow>
              (''strings.h'' \<in> set (inclusions (log ra))) =
              (''strings.h'' \<in> set (inclusions (log rb)))) \<and>
           (flag_set_at P a ''HAVE_UNISTD_H'' = flag_set_at Q b ''HAVE_UNISTD_H'' \<longrightarrow>
              (''unistd.h'' \<in> set (inclusions (log ra))) =
              (''unistd.h'' \<in> set (inclusions (log rb)))) \<and>
           (flag_set_at P a ''HAVE_SYS_BITYPES_H'' = flag_set_at Q b ''HAVE_SYS_BITYPES_H'' \<longrightarrow>
              (''sys/bitypes.h'' \<in> set (inclusions (log ra))) =
              (''sys/bitypes.h'' \<in> set (inclusions (log rb))))"
proof -
  have names: "''snprintf'' \<noteq> guard" "''STDIN_FILENO'' \<noteq> guard" "''STDOUT_FILENO'' \<noteq> guard"
    "''STDERR_FILENO'' \<noteq> guard" "''va_copy'' \<noteq> guard"
    by (simp_all add: guard_def)
  note defs = names [THEN definitions_of_header_result]
  show ?thesis
    unfolding include_system_h_configuration [OF assms(1)]
      include_system_h_configuration [OF assms(2)]
    by (simp add: defs lines_header_result snprintf_definitions
        substitutions_lines descriptor_definitions_of va_copy_definitions va_copy_choice_def
        inclusions_header_result inclusions_headers_log optional_def
        defined_at_substitutions [OF assms(1)] defined_at_substitutions [OF assms(2)]
        defined_at_va_copy [OF assms(1)] defined_at_va_copy [OF assms(2)]
        flag_set_at_configuration [OF assms(1)] flag_set_at_configuration [OF assms(2)]
        line_at_configuration [OF assms(1)] line_at_configuration [OF assms(2)])
qed

theorem substitutions_do_not_interact_witness:
  "configuration msvc win32 \<and> configuration freestanding Map.empty \<and>
   defined_at msvc win32 (Ifdef ''_WIN32'') ''_WIN32'' \<and>
   \<not> defined_at freestanding Map.empty (Ifdef ''_WIN32'') ''_WIN32'' \<and>
   flag_set_at msvc win32 ''HAVE_STDINT_H'' \<and>
   \<not> flag_set_at freestanding Map.empty ''HAVE_STDINT_H'' \<and>
   (\<exists>ra rb. include_system_h msvc win32 = Inr ra \<and>
      include_system_h freestanding Map.empty = Inr rb \<and>
      lines (log ra) = lines (log rb) \<and>
      definitions_of ''STDIN_FILENO'' (log ra) = definitions_of ''STDIN_FILENO'' (log rb) \<and>
      definitions_of ''STDOUT_FILENO'' (log ra) = definitions_of ''STDOUT_FILENO'' (log rb) \<and>
      definitions_of ''STDERR_FILENO'' (log ra) = definitions_of ''STDERR_FILENO'' (log rb) \<and>
      definitions_of ''va_copy'' (log ra) = definitions_of ''va_copy'' (log rb) \<and>
      (''inttypes.h'' \<in> set (inclusions (log ra))) = (''inttypes.h'' \<in> set (inclusions (log rb))) \<and>
      (''strings.h'' \<in> set (inclusions (log ra))) = (''strings.h'' \<in> set (inclusions (log rb))) \<and>
      (''unistd.h'' \<in> set (inclusions (log ra))) = (''unistd.h'' \<in> set (inclusions (log rb))) \<and>
      (''sys/bitypes.h'' \<in> set (inclusions (log ra))) =
      (''sys/bitypes.h'' \<in> set (inclusions (log rb)))) \<and>
   configuration old_gcc Map.empty \<and> configuration freestanding stdin_only \<and>
   flag_set_at old_gcc Map.empty ''HAVE_UNISTD_H'' \<and>
   \<not> flag_set_at freestanding stdin_only ''HAVE_UNISTD_H'' \<and>
   defined_at old_gcc Map.empty (Ifndef ''va_copy'') ''__va_copy'' \<and>
   \<not> defined_at freestanding stdin_only (Ifndef ''va_copy'') ''__va_copy'' \<and>
   (\<exists>ra rb. include_system_h old_gcc Map.empty = Inr ra \<and>
      include_system_h freestanding stdin_only = Inr rb \<and>
      definitions_of ''snprintf'' (log ra) = definitions_of ''snprintf'' (log rb) \<and>
      definitions_of ''STDIN_FILENO'' (log ra) = definitions_of ''STDIN_FILENO'' (log rb) \<and>
      definitions_of ''STDOUT_FILENO'' (log ra) = definitions_of ''STDOUT_FILENO'' (log rb) \<and>
      definitions_of ''STDERR_FILENO'' (log ra) = definitions_of ''STDERR_FILENO'' (log rb) \<and>
      (''inttypes.h'' \<in> set (inclusions (log ra))) = (''inttypes.h'' \<in> set (inclusions (log rb))) \<and>
      (''stdint.h'' \<in> set (inclusions (log ra))) = (''stdint.h'' \<in> set (inclusions (log rb))) \<and>
      (''strings.h'' \<in> set (inclusions (log ra))) = (''strings.h'' \<in> set (inclusions (log rb))))"
proof -
  have l: "line_at msvc win32 = line_at freestanding Map.empty"
    by (simp add: line_at_intact configuration_examples more_configurations msvc_win32_facts
        freestanding_empty_facts)
  from substitutions_do_not_interact [of msvc win32 freestanding Map.empty]
    substitutions_do_not_interact [of old_gcc Map.empty freestanding stdin_only]
  show ?thesis
    by (simp add: configuration_examples more_configurations msvc_win32_facts
        freestanding_empty_facts old_gcc_facts freestanding_stdin_facts l)
qed




text \<open>
  C9: inclusion is idempotent. Whatever the first inclusion returns, including the
  header again in the state it left returns that state unchanged: the guard
  \<open>PORTABLE_SYSTEM_H\<close> is then defined and the whole body is skipped, so nothing is
  included, defined or declared a second time.
\<close>

theorem second_inclusion_changes_nothing:
  assumes "boolean_flags P env"
  shows "\<exists>r. include_system_h P env = Inr r \<and> execs P system_h r = Inr r"
proof (cases "defined env guard")
  case True
  then have "defined (macros (start env)) guard"
    by (simp add: start_def)
  with True show ?thesis
    by (simp add: inclusion_succeeds [OF assms] later_inclusion)
next
  case False
  then show ?thesis
    by (simp add: inclusion_succeeds [OF assms] later_inclusion guard_after_inclusion)
qed

theorem second_inclusion_changes_nothing_witness:
  "boolean_flags msvc win32 \<and>
   (\<exists>r. include_system_h msvc win32 = Inr r \<and> execs msvc system_h r = Inr r)"
proof -
  have "boolean_flags msvc win32"
    using configuration_examples(1) by (simp add: configuration_def)
  with second_inclusion_changes_nothing [of msvc win32] show ?thesis
    by simp
qed

text \<open>
  C10, as stated: a configuration that defines \<open>STDIN_FILENO\<close> but not \<open>STDOUT_FILENO\<close>
  before the inclusion is left without \<open>STDOUT_FILENO\<close> after it. This fails on the POSIX
  platform: \<open>unistd.h\<close>, which the header includes, defines \<open>STDOUT_FILENO\<close>.
\<close>

theorem descriptors_counterexample:
  "configuration posix stdin_only \<and>
   defined stdin_only ''STDIN_FILENO'' \<and> \<not> defined stdin_only ''STDOUT_FILENO'' \<and>
   defined_after posix stdin_only ''STDOUT_FILENO'' = Some True"
proof -
  have "defined (table_substitutions posix stdin_only) ''STDOUT_FILENO''"
    by (simp add: evaluation posix_def stdin_only_def)
  then have "defined (macros (header_result posix stdin_only)) ''STDOUT_FILENO''"
    by (simp add: header_result_def defined_table_end)
  then show ?thesis
    by (simp add: more_configurations defined_after_def include_system_h_configuration)
      (simp add: stdin_only_def defined_def)
qed

text \<open>
  C10, amended: whether the header defines any of the three descriptor constants
  depends on \<open>STDIN_FILENO\<close> alone, as it is at the test of line 87. In every
  configuration, the header defines none of them if and only if \<open>STDIN_FILENO\<close> is
  defined at that test; and then the three constants are after the inclusion what they
  were at that test, so that \<open>STDOUT_FILENO\<close>, if not defined there, is still not defined.
\<close>

theorem descriptors_depend_on_stdin_only:
  assumes "configuration P env"
  shows "\<exists>r. include_system_h P env = Inr r \<and>
           (definitions_of ''STDIN_FILENO'' (log r) = [] \<and>
            definitions_of ''STDOUT_FILENO'' (log r) = [] \<and>
            definitions_of ''STDERR_FILENO'' (log r) = [] \<longleftrightarrow>
              defined_at P env (Ifndef ''STDIN_FILENO'') ''STDIN_FILENO'') \<and>
           (defined_at P env (Ifndef ''STDIN_FILENO'') ''STDIN_FILENO'' \<longrightarrow>
              macros r ''STDIN_FILENO'' = entry_at P env (Ifndef ''STDIN_FILENO'') ''STDIN_FILENO'' \<and>
              macros r ''STDOUT_FILENO'' = entry_at P env (Ifndef ''STDIN_FILENO'') ''STDOUT_FILENO'' \<and>
              macros r ''STDERR_FILENO'' = entry_at P env (Ifndef ''STDIN_FILENO'') ''STDERR_FILENO'')"
  by (simp add: include_system_h_configuration [OF assms] definitions_of_header_result
      descriptor_definitions_of defined_at_substitutions [OF assms]
      entry_at_descriptors [OF assms] guard_def)

theorem descriptors_depend_on_stdin_only_witness:
  "configuration freestanding stdin_only \<and>
   defined_at freestanding stdin_only (Ifndef ''STDIN_FILENO'') ''STDIN_FILENO'' \<and>
   entry_at freestanding stdin_only (Ifndef ''STDIN_FILENO'') ''STDOUT_FILENO'' = None \<and>
   (\<exists>r. include_system_h freestanding stdin_only = Inr r \<and>
        definitions_of ''STDIN_FILENO'' (log r) = [] \<and>
        definitions_of ''STDOUT_FILENO'' (log r) = [] \<and>
        definitions_of ''STDERR_FILENO'' (log r) = [] \<and>
        macros r ''STDOUT_FILENO'' = None)"
proof -
  have c: "configuration freestanding stdin_only"
    by (rule configuration_examples)
  have a: "defined_at freestanding stdin_only (Ifndef ''STDIN_FILENO'') ''STDIN_FILENO''"
    by (simp add: defined_at_substitutions c)
      (simp add: evaluation freestanding_def stdin_only_def)
  have b: "entry_at freestanding stdin_only (Ifndef ''STDIN_FILENO'') ''STDOUT_FILENO'' = None"
    by (simp add: entry_at_def visible_substitutions [OF c])
      (simp add: evaluation freestanding_def stdin_only_def table_ssize_t_def)
  from descriptors_depend_on_stdin_only [OF c] a b show ?thesis
    by (auto simp: c)
qed

end
